theory Spec2Isabelle
  imports Complex_Main
begin

section \<open>Documents of the Post collection (models/Post.js)\<close>

text \<open>
  A JavaScript number field is a \<open>real option\<close>: \<open>Some v\<close> is the finite number
  \<open>v\<close>, and \<open>None\<close> a field that is missing or holds \<open>NaN\<close>. The infinities are not
  represented (\<open>x || 0\<close> and \<open>x > 0\<close> treat them unlike a missing field), and arithmetic
  is exact: what is proved below is about finite numbers, without the rounding of
  doubles unless a definition names it. Instants are milliseconds since the epoch, as
  \<open>Date.getTime()\<close> and \<open>Date.now()\<close> give them. Object ids are natural numbers.
\<close>

datatype post_status = Processing | Ready | Failed | Scheduled | Flagged | Draft

record media_item =
  url :: "string option"
  type :: string
  publicId :: "string option"
  width :: "real option"
  height :: "real option"
  duration :: "real option"
  m_thumbnail :: "string option"
  order :: real

record post =
  post_id :: nat
  user :: nat
  visibility :: string
  status :: post_status
  scheduledFor :: "int option"
  isDeleted :: bool
  isReel :: bool
  likeCount :: "real option"
  commentCount :: "real option"
  shareCount :: "real option"
  saveCount :: "real option"
  viewCount :: "real option"
  engagementScore :: "real option"
  watchTimeSum :: "real option"
  completionSum :: "real option"
  likes :: "nat list"
  createdAt :: int
  media :: "media_item list"
  caption :: "string option"
  thumbnail :: "string option"
  images :: "string list"
  videos :: "media_item list"
  image_url :: "string option"
  mediaType :: string

section \<open>Score engine (engagementScoring.js)\<close>

definition WEIGHTS_like :: real where "WEIGHTS_like = 1.0"
definition WEIGHTS_comment :: real where "WEIGHTS_comment = 2.5"
definition WEIGHTS_share :: real where "WEIGHTS_share = 4.0"
definition WEIGHTS_save :: real where "WEIGHTS_save = 3.0"
definition WEIGHTS_view :: real where "WEIGHTS_view = 0.1"
definition WEIGHTS_completion :: real where "WEIGHTS_completion = 5.0"

definition DECAY_OFFSET :: real where "DECAY_OFFSET = 2"
definition DECAY_EXPONENT :: real where "DECAY_EXPONENT = 1.5"

text \<open>\<open>x || 0\<close>: a missing field counts as 0 (and 0 stays 0).\<close>

definition or_zero :: "real option \<Rightarrow> real" where
  "or_zero x = (case x of None \<Rightarrow> 0 | Some v \<Rightarrow> v)"

text \<open>\<open>x > 0\<close>: false for a missing field.\<close>

definition gt_zero :: "real option \<Rightarrow> bool" where
  "gt_zero x = (case x of None \<Rightarrow> False | Some v \<Rightarrow> 0 < v)"

definition calculateRawScore :: "post \<Rightarrow> real" where
  "calculateRawScore p =
     (let score = 0;
          score = score + or_zero (likeCount p) * WEIGHTS_like;
          score = score + or_zero (commentCount p) * WEIGHTS_comment;
          score = score + or_zero (shareCount p) * WEIGHTS_share;
          score = score + or_zero (saveCount p) * WEIGHTS_save;
          score = score + or_zero (viewCount p) * WEIGHTS_view
      in if isReel p \<and> gt_zero (viewCount p) \<and> gt_zero (completionSum p)
         then (let avgCompletion = or_zero (completionSum p) / or_zero (viewCount p)
               in score + avgCompletion * WEIGHTS_completion)
         else score)"

text \<open>
  \<open>applyTimeDecay\<close> reads the clock itself (\<open>Date.now()\<close>); the reading is the first
  argument here. \<open>Math.pow(b, 1.5)\<close> is \<open>NaN\<close> for a negative base and 0 for base 0, so
  the quotient is a finite number only when the base is positive. With a negative base
  it is \<open>NaN\<close>; with the base 0 (a post dated exactly two hours after the clock) it is
  \<open>NaN\<close> or an infinity, which \<open>None\<close> does not tell apart.
\<close>

definition applyTimeDecay :: "int \<Rightarrow> real \<Rightarrow> int \<Rightarrow> real option" where
  "applyTimeDecay now rawScore created =
     (let hoursSincePost = real_of_int (now - created) / (1000 * 60 * 60);
          base = hoursSincePost + DECAY_OFFSET
      in if base \<le> 0 then None
         else (let decayFactor = base powr DECAY_EXPONENT in Some (rawScore / decayFactor)))"

text \<open>Lines 85-86 of the batch job: the score of one post at one clock reading.\<close>

definition decayedScore :: "int \<Rightarrow> post \<Rightarrow> real option" where
  "decayedScore now p = applyTimeDecay now (calculateRawScore p) (createdAt p)"




subsection \<open>The batch job \<open>computeEngagementScores\<close>\<close>


text \<open>An update by \<open>_id\<close> changes the first document with that id, if there is one.\<close>

fun updateById :: "nat \<Rightarrow> (post \<Rightarrow> post) \<Rightarrow> post list \<Rightarrow> post list" where
  "updateById i f [] = []"
| "updateById i f (q # qs) = (if post_id q = i then f q # qs else q # updateById i f qs)"









section \<open>Cache service (utils/cache.js)\<close>

text \<open>
  Cached values are the values that JSON serialisation gives back unchanged
  (\<open>JSON.parse (JSON.stringify x) = x\<close>): \<open>None\<close> is \<open>null\<close>, \<open>Some v\<close> such a value other
  than \<open>null\<close>. The text that the cache stores is represented by the value it denotes;
  that text is never the empty string (the text of \<open>null\<close> is \<open>"null"\<close>), hence always
  truthy. A result that serialisation does not give back is outside the type \<open>'v option\<close>:
  \<open>undefined\<close> has no text, \<open>NaN\<close> and the infinities have the text \<open>"null"\<close>, so that a
  later \<open>get\<close> reads \<open>null\<close> for them, as it does for the result \<open>null\<close>.

  \<open>isRedisConnected\<close> stands for \<open>isRedisConnected && redis\<close>. \<open>redisDown\<close> belongs to
  the environment: while it holds, every command sent to Redis throws, and the
  \<open>catch\<close> lets the operation fall through to the in-memory maps. Redis itself is a
  map from keys to a text and the instant at which the key expires (\<open>SETEX\<close>, \<open>GET\<close>).
  No operation of the cache changes the two flags: a run of calls on one cache state is
  a run during which the connection to Redis neither comes nor goes.
\<close>

record ('k, 'v) cache_state =
  isRedisConnected :: bool
  redisDown :: bool
  redisStore :: "'k \<rightharpoonup> ('v option \<times> int)"
  memoryCache :: "'k \<rightharpoonup> 'v option"
  memoryCacheTTL :: "'k \<rightharpoonup> int"

definition redis_setex :: "int \<Rightarrow> 'k \<Rightarrow> int \<Rightarrow> 'v option \<Rightarrow> ('k \<rightharpoonup> ('v option \<times> int))
     \<Rightarrow> ('k \<rightharpoonup> ('v option \<times> int))" where
  "redis_setex now key ttlSeconds serialized r = r(key \<mapsto> (serialized, now + ttlSeconds * 1000))"

definition redis_get :: "int \<Rightarrow> 'k \<Rightarrow> ('k \<rightharpoonup> ('v option \<times> int)) \<Rightarrow> 'v option option" where
  "redis_get now key r =
     (case r key of None \<Rightarrow> None
      | Some (serialized, expiry) \<Rightarrow> if expiry < now then None else Some serialized)"

text \<open>\<open>set(key, value, ttlSeconds)\<close>; \<open>now\<close> is the reading of \<open>Date.now()\<close>.\<close>

definition cache_set :: "int \<Rightarrow> 'k \<Rightarrow> 'v option \<Rightarrow> int \<Rightarrow> ('k, 'v) cache_state \<Rightarrow> ('k, 'v) cache_state" where
  "cache_set now key val ttlSeconds c =
     (let serialized = val
      in if isRedisConnected c \<and> \<not> redisDown c
         then c\<lparr>redisStore := redis_setex now key ttlSeconds serialized (redisStore c)\<rparr>
         else c\<lparr>memoryCache := (memoryCache c)(key \<mapsto> serialized),
                memoryCacheTTL := (memoryCacheTTL c)(key \<mapsto> now + ttlSeconds * 1000)\<rparr>)"

text \<open>
  \<open>get(key)\<close>: \<open>value ? JSON.parse(value) : null\<close> on either backend. In the memory
  branch \<open>ttl && ttl < Date.now()\<close> is false for a missing expiry and for the expiry 0;
  an expired entry is deleted from both maps.
\<close>

definition cache_get :: "int \<Rightarrow> 'k \<Rightarrow> ('k, 'v) cache_state \<Rightarrow> 'v option \<times> ('k, 'v) cache_state" where
  "cache_get now key c =
     (if isRedisConnected c \<and> \<not> redisDown c
      then (case redis_get now key (redisStore c) of
              None \<Rightarrow> (None, c)
            | Some serialized \<Rightarrow> (serialized, c))
      else (let ttl = memoryCacheTTL c key
            in if (case ttl of None \<Rightarrow> False | Some t \<Rightarrow> t \<noteq> 0 \<and> t < now)
               then (None, c\<lparr>memoryCache := (memoryCache c)(key := None),
                             memoryCacheTTL := (memoryCacheTTL c)(key := None)\<rparr>)
               else (case memoryCache c key of
                       None \<Rightarrow> (None, c)
                     | Some serialized \<Rightarrow> (serialized, c))))"

text \<open>
  \<open>cached(key, fn, ttlSeconds)\<close>. \<open>fn\<close> is an effectful computation on a world \<open>'w\<close>
  (the authoritative store). \<open>tget\<close> is the clock reading inside \<open>get\<close>, \<open>tset\<close> the
  later one inside \<open>set\<close>.
\<close>

definition cached ::
  "int \<Rightarrow> int \<Rightarrow> 'k \<Rightarrow> ('w \<Rightarrow> 'v option \<times> 'w) \<Rightarrow> int \<Rightarrow> ('k, 'v) cache_state \<times> 'w
     \<Rightarrow> 'v option \<times> ('k, 'v) cache_state \<times> 'w" where
  "cached tget tset key fn ttlSeconds cw =
     (case cw of (c, w) \<Rightarrow>
        (case cache_get tget key c of
           (Some v, c1) \<Rightarrow> (Some v, c1, w)
         | (None, c1) \<Rightarrow>
             (case fn w of (result, w1) \<Rightarrow>
                (result, cache_set tset key result ttlSeconds c1, w1))))"

text \<open>A computation instrumented with the number of times it has been invoked.\<close>

definition counting :: "('w \<Rightarrow> 'v option \<times> 'w) \<Rightarrow> nat \<times> 'w \<Rightarrow> 'v option \<times> (nat \<times> 'w)" where
  "counting fn nw = (case nw of (n, w) \<Rightarrow> (case fn w of (r, w1) \<Rightarrow> (r, (Suc n, w1))))"

datatype cache_key =
    FollowingFeedKey nat int
  | ExploreFeedKey int
  | ReelsFeedKey int

definition TTL_FOLLOWING_FEED :: int where "TTL_FOLLOWING_FEED = 5 * 60"
definition TTL_EXPLORE_FEED :: int where "TTL_EXPLORE_FEED = 15 * 60"
definition TTL_REELS_FEED :: int where "TTL_REELS_FEED = 10 * 60"

section \<open>Mongoose documents: hydration, the pre-save hook and \<open>save\<close>\<close>

text \<open>
  A document read from the store is hydrated: a counter that the stored document lacks
  gets the default 0 of the schema. The handlers and jobs work on the hydrated document.
\<close>

definition orDefault :: "real option \<Rightarrow> real option" where
  "orDefault x = (case x of None \<Rightarrow> Some 0 | Some v \<Rightarrow> Some v)"

definition hydrate :: "post \<Rightarrow> post" where
  "hydrate p =
     p\<lparr>likeCount := orDefault (likeCount p), commentCount := orDefault (commentCount p),
       shareCount := orDefault (shareCount p), saveCount := orDefault (saveCount p),
       viewCount := orDefault (viewCount p), engagementScore := orDefault (engagementScore p),
       watchTimeSum := orDefault (watchTimeSum p), completionSum := orDefault (completionSum p)\<rparr>"

text \<open>The pre-save hook of models/Post.js: a single vertical video makes the post a reel.\<close>

definition verticalVideo :: "media_item list \<Rightarrow> bool" where
  "verticalVideo ms =
     (case ms of
        [m] \<Rightarrow>
          type m = ''video''
          \<and> (case (width m, height m) of
                (Some wd, Some ht) \<Rightarrow> wd \<noteq> 0 \<and> ht \<noteq> 0 \<and> wd < ht
              | _ \<Rightarrow> False)
      | _ \<Rightarrow> False)"

definition preSave :: "post \<Rightarrow> post" where
  "preSave p = (if verticalVideo (media p) then p\<lparr>isReel := True\<rparr> else p)"

text \<open>
  The validation of the schema, on the paths that the handlers and jobs fill or change:
  every media item has a url (a required string is present and not empty) and the type
  image or video, and the visibility is one of the three of its enumeration.
  \<open>Post.create\<close> and \<open>save\<close> run it on the document in memory and throw when it fails;
  nothing is written then.
\<close>

definition truthy_str :: "string option \<Rightarrow> bool" where
  "truthy_str x = (case x of None \<Rightarrow> False | Some t \<Rightarrow> t \<noteq> [])"

definition schemaValid :: "post \<Rightarrow> bool" where
  "schemaValid p \<longleftrightarrow>
     list_all (\<lambda>m. truthy_str (url m) \<and> (type m = ''image'' \<or> type m = ''video'')) (media p)
     \<and> (visibility p = ''public'' \<or> visibility p = ''followers'' \<or> visibility p = ''private'')"

text \<open>
  \<open>post.save()\<close> on a document that was read from the store writes the paths the caller
  changed and, with them, every default that hydration applied: a counter that the
  document lacked when it was read is written as 0, over whatever the store holds by
  then. \<open>raw\<close> is the stored document as it was read, \<open>change\<close> the caller's changes,
  \<open>q\<close> the stored document at the time of the write. The hook runs before the write,
  after the validation; a caller of \<open>save\<close> checks \<open>schemaValid\<close> on the document it holds
  before it writes \<open>savedDoc\<close>.
\<close>

definition writeDefault :: "real option \<Rightarrow> real option \<Rightarrow> real option" where
  "writeDefault r x = (if r = None then Some 0 else x)"

definition writeDefaults :: "post \<Rightarrow> post \<Rightarrow> post" where
  "writeDefaults raw q =
     q\<lparr>likeCount := writeDefault (likeCount raw) (likeCount q),
       commentCount := writeDefault (commentCount raw) (commentCount q),
       shareCount := writeDefault (shareCount raw) (shareCount q),
       saveCount := writeDefault (saveCount raw) (saveCount q),
       viewCount := writeDefault (viewCount raw) (viewCount q),
       engagementScore := writeDefault (engagementScore raw) (engagementScore q),
       watchTimeSum := writeDefault (watchTimeSum raw) (watchTimeSum q),
       completionSum := writeDefault (completionSum raw) (completionSum q)\<rparr>"

definition savedDoc :: "post \<Rightarrow> (post \<Rightarrow> post) \<Rightarrow> post \<Rightarrow> post" where
  "savedDoc raw change q = preSave (change (writeDefaults raw q))"

section \<open>The store and the feed service (in controllers/reportController.js)\<close>

record user_doc =
  user_id :: nat
  username :: string
  following :: "nat list"
  followers :: "nat list"
  blockedUsers :: "nat list"

record notification =
  n_userId :: nat
  actorId :: nat
  title :: string
  body :: string
  n_type :: string
  data_postId :: nat

record engagement_event =
  ev_userId :: nat
  ev_postId :: nat
  eventType :: string

text \<open>
  The store answers every command of a handler (a store that is down makes the handler
  answer 500 from its \<open>catch\<close>; that is not modelled, except where a property is about such
  a failure). The commands sent to the store are logged, the latest last.
\<close>

datatype store_op =
  PostFind | PostFindOne | PostFindById | PostUpdate | PostCreate | UserFindById | EventCreate

record world =
  postsColl :: "post list"
  usersColl :: "user_doc list"
  eventsColl :: "engagement_event list"
  notificationsColl :: "notification list"
  storeLog :: "store_op list"

record feed_page =
  posts :: "post list"
  hasMore :: "bool option"
  page :: int
  limit :: int

record request =
  req_user :: user_doc
  query_page :: "int option"
  query_limit :: "int option"

datatype http_error = Status400 string | Status404 string | Status500 string

text \<open>\<open>parseInt(q) || d\<close>: \<open>None\<close> is a parameter that does not parse (\<open>NaN\<close>).\<close>

definition parseIntOr :: "int option \<Rightarrow> int \<Rightarrow> int" where
  "parseIntOr q d = (case q of None \<Rightarrow> d | Some n \<Rightarrow> if n = 0 then d else n)"

text \<open>
  Sorting is a stable insertion sort on a "comes strictly before" relation. A missing
  score sorts below every number.
\<close>

fun insertBy :: "('a \<Rightarrow> 'a \<Rightarrow> bool) \<Rightarrow> 'a \<Rightarrow> 'a list \<Rightarrow> 'a list" where
  "insertBy before x [] = [x]"
| "insertBy before x (y # ys) = (if before x y then x # y # ys else y # insertBy before x ys)"

fun sortBy :: "('a \<Rightarrow> 'a \<Rightarrow> bool) \<Rightarrow> 'a list \<Rightarrow> 'a list" where
  "sortBy before [] = []"
| "sortBy before (x # xs) = insertBy before x (sortBy before xs)"

definition num_gt :: "real option \<Rightarrow> real option \<Rightarrow> bool" where
  "num_gt a b = (case a of None \<Rightarrow> False
                 | Some x \<Rightarrow> (case b of None \<Rightarrow> True | Some y \<Rightarrow> y < x))"

text \<open>\<open>x >= k\<close> and \<open>x < k\<close> on a number that may be missing: false when it is.\<close>

definition num_ge :: "real option \<Rightarrow> real \<Rightarrow> bool" where
  "num_ge x k = (case x of None \<Rightarrow> False | Some v \<Rightarrow> k \<le> v)"

definition num_lt :: "real option \<Rightarrow> real \<Rightarrow> bool" where
  "num_lt x k = (case x of None \<Rightarrow> False | Some v \<Rightarrow> v < k)"

text \<open>\<open>sort({engagementScore: -1})\<close>\<close>

definition byScore :: "post \<Rightarrow> post \<Rightarrow> bool" where
  "byScore p q = num_gt (engagementScore p) (engagementScore q)"

text \<open>\<open>sort({engagementScore: -1, createdAt: -1})\<close>\<close>

definition byScoreThenDate :: "post \<Rightarrow> post \<Rightarrow> bool" where
  "byScoreThenDate p q \<longleftrightarrow>
     num_gt (engagementScore p) (engagementScore q)
     \<or> (engagementScore p = engagementScore q \<and> createdAt q < createdAt p)"

text \<open>
  \<open>Post.find(filter).sort(..).skip(skip).limit(n)\<close>: the store rejects a negative skip;
  a limit of 0 is no limit, and a negative limit is taken by its absolute value. The
  documents found are hydrated, and the command is logged.
\<close>

definition mongo_limit :: "int \<Rightarrow> 'a list \<Rightarrow> 'a list" where
  "mongo_limit n xs = (if n = 0 then xs else take (nat \<bar>n\<bar>) xs)"

definition Post_find ::
  "(post \<Rightarrow> bool) \<Rightarrow> (post \<Rightarrow> post \<Rightarrow> bool) \<Rightarrow> int \<Rightarrow> int \<Rightarrow> world \<Rightarrow> (http_error + post list) \<times> world" where
  "Post_find flt before skip lmt w =
     (let w1 = w\<lparr>storeLog := storeLog w @ [PostFind]\<rparr>
      in if skip < 0 then (Inl (Status500 ''Server error''), w1)
         else (Inr (map hydrate
                      (mongo_limit lmt (drop (nat skip) (sortBy before (filter flt (postsColl w)))))),
               w1))"

text \<open>\<open>xs.slice(0, n)\<close>: a negative \<open>n\<close> counts from the end.\<close>

definition slice0 :: "int \<Rightarrow> 'a list \<Rightarrow> 'a list" where
  "slice0 n xs = (if 0 \<le> n then take (nat n) xs else take (length xs - nat (- n)) xs)"

definition User_findById :: "nat \<Rightarrow> world \<Rightarrow> user_doc option \<times> world" where
  "User_findById uid w =
     (find (\<lambda>u. user_id u = uid) (usersColl w), w\<lparr>storeLog := storeLog w @ [UserFindById]\<rparr>)"

subsection \<open>\<open>getExplorePosts\<close>\<close>

definition exploreQuery :: "post \<Rightarrow> bool" where
  "exploreQuery p \<longleftrightarrow> \<not> isDeleted p \<and> status p = Ready \<and> visibility p = ''public''"

text \<open>
  \<open>populate\<close> leaves \<open>user\<close> null on a post whose author's document is gone; the page
  is cached and answered like that on a miss, and on a hit the filter reads
  \<open>p.user._id\<close> and throws on such a post. No operation of the model removes a user, so
  whether an author is missing is read from the store at the time of the hit.
\<close>

definition authorMissing :: "world \<Rightarrow> post \<Rightarrow> bool" where
  "authorMissing w p \<longleftrightarrow> find (\<lambda>u. user_id u = user p) (usersColl w) = None"

definition getExplorePosts ::
  "int \<Rightarrow> request \<Rightarrow> (cache_key, feed_page) cache_state \<times> world
     \<Rightarrow> (http_error + feed_page) \<times> (cache_key, feed_page) cache_state \<times> world" where
  "getExplorePosts now req cw =
     (case cw of (c, w) \<Rightarrow>
        (let pg = parseIntOr (query_page req) 1;
             lmt = parseIntOr (query_limit req) 20;
             skip = (pg - 1) * lmt;
             cacheKey = ExploreFeedKey pg
         in case cache_get now cacheKey c of
              (Some hit, c1) \<Rightarrow>
                (let blockedIds = blockedUsers (req_user req)
                 in if list_ex (authorMissing w) (posts hit)
                    then (Inl (Status500 ''Server error''), c1, w)
                    else (Inr (hit\<lparr>posts := filter (\<lambda>p. user p \<notin> set blockedIds) (posts hit)\<rparr>),
                          c1, w))
            | (None, c1) \<Rightarrow>
                (case Post_find exploreQuery byScore skip lmt w of
                   (Inl e, w1) \<Rightarrow> (Inl e, c1, w1)
                 | (Inr found, w1) \<Rightarrow>
                     (let result = \<lparr>posts = found, hasMore = None, page = pg, limit = lmt\<rparr>
                      in (Inr result, cache_set now cacheKey (Some result) TTL_EXPLORE_FEED c1, w1)))))"

subsection \<open>\<open>getFollowingFeed\<close>\<close>

definition followingQuery :: "user_doc \<Rightarrow> post \<Rightarrow> bool" where
  "followingQuery currentUser p \<longleftrightarrow>
     user p \<in> set (following currentUser) \<and> user p \<notin> set (blockedUsers currentUser)
     \<and> \<not> isDeleted p \<and> status p = Ready
     \<and> (visibility p = ''public'' \<or> visibility p = ''followers'')"

definition getFollowingFeed ::
  "int \<Rightarrow> request \<Rightarrow> (cache_key, feed_page) cache_state \<times> world
     \<Rightarrow> (http_error + feed_page) \<times> (cache_key, feed_page) cache_state \<times> world" where
  "getFollowingFeed now req cw =
     (case cw of (c, w) \<Rightarrow>
        (let pg = parseIntOr (query_page req) 1;
             lmt = parseIntOr (query_limit req) 10;
             skip = (pg - 1) * lmt;
             userId = user_id (req_user req);
             cacheKey = FollowingFeedKey userId pg
         in case cache_get now cacheKey c of
              (Some hit, c1) \<Rightarrow> (Inr hit, c1, w)
            | (None, c1) \<Rightarrow>
                (case User_findById userId w of
                   (None, w1) \<Rightarrow> (Inl (Status500 ''Server error''), c1, w1)
                 | (Some currentUser, w1) \<Rightarrow>
                     (let followingIds = following currentUser
                      in if length followingIds = 0
                         then (Inr \<lparr>posts = [], hasMore = Some False, page = pg, limit = lmt\<rparr>, c1, w1)
                         else (case Post_find (followingQuery currentUser) byScoreThenDate skip (lmt + 1) w1 of
                                 (Inl e, w2) \<Rightarrow> (Inl e, c1, w2)
                               | (Inr found, w2) \<Rightarrow>
                                   (let more = (lmt < int (length found));
                                        postsToReturn = (if more then slice0 lmt found else found);
                                        result = \<lparr>posts = postsToReturn, hasMore = Some more,
                                                  page = pg, limit = lmt\<rparr>
                                    in (Inr result,
                                        cache_set now cacheKey (Some result) TTL_FOLLOWING_FEED c1, w2)))))))"

subsection \<open>\<open>toggleLike\<close>\<close>




definition EngagementEvent_track :: "nat \<Rightarrow> nat \<Rightarrow> string \<Rightarrow> world \<Rightarrow> world" where
  "EngagementEvent_track uid pid ev w =
     w\<lparr>eventsColl := eventsColl w @ [\<lparr>ev_userId = uid, ev_postId = pid, eventType = ev\<rparr>],
       storeLog := storeLog w @ [EventCreate]\<rparr>"



subsection \<open>\<open>trackWatch\<close>\<close>

text \<open>
  The handler adds the \<open>watchTime\<close> and the \<open>completionPercent\<close> of the request body to
  the sums of the post as they come (\<open>x || 0\<close>, no check of range or sign), then records
  the milestone event. \<open>Post.findById\<close> also finds a deleted post.
\<close>

definition trackWatch ::
  "nat \<Rightarrow> nat \<Rightarrow> real option \<Rightarrow> real option \<Rightarrow> world \<Rightarrow> (http_error + unit) \<times> world" where
  "trackWatch userId pid watchTime completionPercent w =
     (let w1 = w\<lparr>storeLog := storeLog w @ [PostFindById]\<rparr>
      in case find (\<lambda>p. post_id p = pid) (postsColl w) of
           None \<Rightarrow> (Inl (Status404 ''Post not found''), w1)
         | Some p \<Rightarrow>
             (let w2 = w1\<lparr>postsColl :=
                            updateById (post_id p)
                              (\<lambda>q. q\<lparr>watchTimeSum := Some (or_zero (watchTimeSum q) + or_zero watchTime),
                                      completionSum :=
                                        Some (or_zero (completionSum q) + or_zero completionPercent)\<rparr>)
                              (postsColl w1),
                          storeLog := storeLog w1 @ [PostUpdate]\<rparr>;
                  c = completionPercent;
                  w3 = (if num_ge c 25 \<and> num_lt c 50
                        then EngagementEvent_track userId (post_id p) ''video_25'' w2
                        else if num_ge c 50 \<and> num_lt c 75
                        then EngagementEvent_track userId (post_id p) ''video_50'' w2
                        else if num_ge c 75 \<and> num_lt c 100
                        then EngagementEvent_track userId (post_id p) ''video_75'' w2
                        else if num_ge c 100
                        then EngagementEvent_track userId (post_id p) ''video_complete'' w2
                        else w2)
              in (Inr (), w3)))"

subsection \<open>\<open>createPost\<close>\<close>



text \<open>\<open>a || b\<close> on strings.\<close>







text \<open>The defaults of the schema of models/Post.js.\<close>

definition schemaDefaults :: "nat \<Rightarrow> nat \<Rightarrow> int \<Rightarrow> post" where
  "schemaDefaults newId uid now =
     \<lparr>post_id = newId, user = uid, visibility = ''public'', status = Processing,
      scheduledFor = None, isDeleted = False, isReel = False,
      likeCount = Some 0, commentCount = Some 0, shareCount = Some 0, saveCount = Some 0,
      viewCount = Some 0, engagementScore = Some 0, watchTimeSum = Some 0,
      completionSum = Some 0,
      likes = [], createdAt = now, media = [], caption = None, thumbnail = None,
      images = [], videos = [], image_url = None, mediaType = ''image''\<rparr>"



section \<open>Scheduled-post publisher (jobs/scheduler.js)\<close>

definition duePost :: "int \<Rightarrow> post \<Rightarrow> bool" where
  "duePost now p \<longleftrightarrow>
     status p = Scheduled \<and> (case scheduledFor p of None \<Rightarrow> False | Some t \<Rightarrow> t \<le> now)"

text \<open>
  \<open>Notification.insertMany(docs, {ordered: false})\<close>: every document that the store
  accepts is inserted, and the call throws afterwards when some document was refused.
  \<open>refused\<close> is the store's verdict on a document; the first component of the result
  tells whether the call threw.
\<close>

definition insertMany :: "(notification \<Rightarrow> bool) \<Rightarrow> notification list \<Rightarrow> world \<Rightarrow> bool \<times> world" where
  "insertMany refused docs w =
     (list_ex refused docs,
      w\<lparr>notificationsColl := notificationsColl w @ filter (\<lambda>d. \<not> refused d) docs\<rparr>)"

definition followerNotification :: "user_doc \<Rightarrow> post \<Rightarrow> nat \<Rightarrow> notification" where
  "followerNotification author p followerId =
     \<lparr>n_userId = followerId, actorId = user_id author, title = ''New Post'',
      body = username author @ '' shared a new post'', n_type = ''share'',
      data_postId = post_id p\<rparr>"

text \<open>
  The \<open>for\<close> loop over the due posts (\<open>post.status = 'ready'; await post.save()\<close>, then
  the notifications). It sits inside the one \<open>try\<close> of the job, so an
  exception (of \<open>save\<close>, of \<open>insertMany\<close>) leaves the loop; the first component of the
  result tells whether that happened. \<open>populate\<close> leaves \<open>post.user\<close> null when the author's document is gone,
  and reading \<open>author.followers\<close> then throws.
\<close>

fun publishLoop :: "(notification \<Rightarrow> bool) \<Rightarrow> post list \<Rightarrow> world \<Rightarrow> bool \<times> world" where
  "publishLoop refused [] w = (False, w)"
| "publishLoop refused (p # rest) w =
     (if \<not> schemaValid (p\<lparr>status := Ready\<rparr>) then (True, w)
      else
       (let w1 = w\<lparr>postsColl := updateById (post_id p) (savedDoc p (\<lambda>q. q\<lparr>status := Ready\<rparr>))
                                   (postsColl w)\<rparr>
        in case find (\<lambda>u. user_id u = user p) (usersColl w) of
             None \<Rightarrow> (True, w1)
           | Some author \<Rightarrow>
               if 0 < length (followers author)
               then (let notifications = map (followerNotification author p) (followers author)
                     in case insertMany refused notifications w1 of
                          (True, w2) \<Rightarrow> (True, w2)
                        | (False, w2) \<Rightarrow> publishLoop refused rest w2)
               else publishLoop refused rest w1))"

definition publisherTick :: "(notification \<Rightarrow> bool) \<Rightarrow> int \<Rightarrow> world \<Rightarrow> bool \<times> world" where
  "publisherTick refused now w =
     (let duePosts = filter (duePost now) (postsColl w)
      in if 0 < length duePosts then publishLoop refused duePosts w else (False, w))"

section \<open>Notions used to state the properties\<close>



text \<open>
  The raw score as the specification words it: the weighted sum, plus the reel bonus
  whenever the post is a reel with a positive view count.
\<close>

definition rawScore_spec :: "post \<Rightarrow> real" where
  "rawScore_spec p =
     or_zero (likeCount p) * 1.0 + or_zero (commentCount p) * 2.5 + or_zero (shareCount p) * 4.0
     + or_zero (saveCount p) * 3.0 + or_zero (viewCount p) * 0.1
     + (if isReel p \<and> 0 < or_zero (viewCount p)
        then or_zero (completionSum p) / or_zero (viewCount p) * 5.0 else 0)"



text \<open>
  The cache right after the module is loaded: no Redis, both maps empty.
\<close>

definition emptyCache :: "('k, 'v) cache_state" where
  "emptyCache = \<lparr>isRedisConnected = False, redisDown = False, redisStore = Map.empty,
                  memoryCache = Map.empty, memoryCacheTTL = Map.empty\<rparr>"

text \<open>
  Calls of \<open>cached\<close> for one key in succession, each with the clock readings of its
  \<open>get\<close> and its \<open>set\<close>; the results are collected in order.
\<close>

fun cachedRun ::
  "(int \<times> int) list \<Rightarrow> 'k \<Rightarrow> ('w \<Rightarrow> 'v option \<times> 'w) \<Rightarrow> int \<Rightarrow> ('k, 'v) cache_state \<times> 'w
     \<Rightarrow> 'v option list \<times> ('k, 'v) cache_state \<times> 'w" where
  "cachedRun [] key fn ttlSeconds cw = ([], cw)"
| "cachedRun ((tget, tset) # ts) key fn ttlSeconds cw =
     (case cached tget tset key fn ttlSeconds cw of
        (r, cw1) \<Rightarrow> (case cachedRun ts key fn ttlSeconds cw1 of (rs, cw2) \<Rightarrow> (r # rs, cw2)))"



text \<open>
  The notifications of one published post: one for each follower of its author.
\<close>

definition fanOut :: "user_doc list \<Rightarrow> post \<Rightarrow> notification list" where
  "fanOut us p = (case find (\<lambda>u. user_id u = user p) us of
                    None \<Rightarrow> []
                  | Some author \<Rightarrow> map (followerNotification author p) (followers author))"

subsection \<open>Example data\<close>

definition watchedReel :: post where
  "watchedReel = (schemaDefaults 1 1 0)\<lparr>status := Ready, isReel := True, viewCount := Some 1\<rparr>"

definition negReel :: post where
  "negReel = watchedReel\<lparr>completionSum := Some (- 1)\<rparr>"


definition scenarioPost :: post where
  "scenarioPost = (schemaDefaults 1 1 0)\<lparr>likeCount := Some 10, commentCount := Some 2,
      saveCount := Some 1, viewCount := Some 100\<rparr>"






definition nullFn :: "unit \<Rightarrow> nat option \<times> unit" where
  "nullFn w = (None, w)"

definition nonNullFn :: "unit \<Rightarrow> nat option \<times> unit" where
  "nonNullFn w = (Some 7, w)"

definition emptyWorld :: world where
  "emptyWorld = \<lparr>postsColl = [], usersColl = [], eventsColl = [], notificationsColl = [],
                  storeLog = []\<rparr>"

definition blockedAuthorPost :: post where
  "blockedAuthorPost = (schemaDefaults 10 7 0)\<lparr>status := Ready\<rparr>"

definition blockingUser :: user_doc where
  "blockingUser = \<lparr>user_id = 1, username = ''ann'', following = [], followers = [],
                    blockedUsers = [7]\<rparr>"

definition blockingRequest :: request where
  "blockingRequest = \<lparr>req_user = blockingUser, query_page = Some 1, query_limit = Some 20\<rparr>"

definition blockedAuthor :: user_doc where
  "blockedAuthor = \<lparr>user_id = 7, username = ''bea'', following = [], followers = [],
                     blockedUsers = []\<rparr>"

definition exploreWorld :: world where
  "exploreWorld = emptyWorld\<lparr>postsColl := [blockedAuthorPost],
                              usersColl := [blockingUser, blockedAuthor]\<rparr>"








definition authorA :: user_doc where
  "authorA = \<lparr>user_id = 5, username = ''ann'', following = [], followers = [8, 9, 10],
               blockedUsers = []\<rparr>"

definition authorB :: user_doc where
  "authorB = \<lparr>user_id = 6, username = ''bob'', following = [], followers = [11],
               blockedUsers = []\<rparr>"

definition dueA :: post where
  "dueA = (schemaDefaults 1 5 0)\<lparr>status := Scheduled, scheduledFor := Some 59000\<rparr>"

definition dueB :: post where
  "dueB = (schemaDefaults 2 6 0)\<lparr>status := Scheduled, scheduledFor := Some 30000\<rparr>"

definition schedWorld :: world where
  "schedWorld = emptyWorld\<lparr>postsColl := [dueA, dueB], usersColl := [authorA, authorB]\<rparr>"

definition refuses9 :: "notification \<Rightarrow> bool" where
  "refuses9 d \<longleftrightarrow> n_userId d = 9"

section \<open>Properties of the score engine\<close>

lemma gt_zero_iff: "gt_zero x \<longleftrightarrow> 0 < or_zero x"
  by (cases x) (simp_all add: gt_zero_def or_zero_def)

lemmas weights = WEIGHTS_like_def WEIGHTS_comment_def WEIGHTS_share_def WEIGHTS_save_def
  WEIGHTS_view_def WEIGHTS_completion_def

text \<open>
  A reel with one view reaches the completion sum -1 through the watch handler, with a
  request whose \<open>completionPercent\<close> is -1.
\<close>

lemma trackWatch_negative:
  "trackWatch 3 1 None (Some (- 1)) (emptyWorld\<lparr>postsColl := [watchedReel]\<rparr>)
     = (Inr (), emptyWorld\<lparr>postsColl := [negReel], storeLog := [PostFindById, PostUpdate]\<rparr>)"
  by (simp add: trackWatch_def emptyWorld_def watchedReel_def negReel_def schemaDefaults_def
      or_zero_def num_ge_def num_lt_def Let_def)

text \<open>
  Claim C1 does not hold as stated: the guard of the reel bonus also asks for
  \<open>completionSum > 0\<close>. That reel scores 0.1, where the formula of the claim gives
  -4.9.
\<close>

theorem calculateRawScore_counterexample:
  "calculateRawScore negReel = 1 / 10 \<and> rawScore_spec negReel = - 49 / 10"
  by (simp add: calculateRawScore_def rawScore_spec_def negReel_def watchedReel_def
      schemaDefaults_def Let_def gt_zero_def or_zero_def weights)

text \<open>
  C1, as amended: for every post, the raw engagement score equals
  likeCount * 1.0 + commentCount * 2.5 + shareCount * 4.0 + saveCount * 3.0 + viewCount * 0.1,
  plus, exactly when the post is a reel with viewCount > 0 and completionSum > 0, the reel
  bonus (completionSum / viewCount) * 5.0; in every other case the completion term
  contributes exactly 0.
\<close>

theorem calculateRawScore_formula:
  "calculateRawScore p =
     or_zero (likeCount p) * 1.0 + or_zero (commentCount p) * 2.5 + or_zero (shareCount p) * 4.0
     + or_zero (saveCount p) * 3.0 + or_zero (viewCount p) * 0.1
     + (if isReel p \<and> 0 < or_zero (viewCount p) \<and> 0 < or_zero (completionSum p)
        then or_zero (completionSum p) / or_zero (viewCount p) * 5.0 else 0)"
  by (simp add: calculateRawScore_def Let_def gt_zero_iff weights)

text \<open>
  On every post whose completion sum is not negative the code agrees with the formula
  of the specification.
\<close>

lemma calculateRawScore_spec_nonneg:
  "0 \<le> or_zero (completionSum p) \<Longrightarrow> calculateRawScore p = rawScore_spec p"
  by (auto simp add: calculateRawScore_def rawScore_spec_def Let_def gt_zero_iff weights)








lemma scenario_raw: "calculateRawScore scenarioPost = 28"
  by (simp add: scenarioPost_def schemaDefaults_def calculateRawScore_def Let_def or_zero_def
      gt_zero_def weights)


text \<open>
  The scenario of the specification: raw score 28, and 28 / 3 ^ 1.5 after one hour.
\<close>

lemma scenario_decayed: "decayedScore 3600000 scenarioPost = Some (28 / (3 powr 1.5))"
proof -
  have c: "createdAt scenarioPost = 0" by (simp add: scenarioPost_def schemaDefaults_def)
  show ?thesis
    by (simp add: decayedScore_def scenario_raw applyTimeDecay_def Let_def DECAY_OFFSET_def
        DECAY_EXPONENT_def c)
qed

subsection \<open>The batch job\<close>





text \<open>
  Updating, one after the other, the documents that a query selects from a collection
  with distinct ids changes exactly the selected documents.
\<close>

lemma foldl_updateById_skip:
  "\<forall>p \<in> set ps. post_id p \<noteq> post_id q \<Longrightarrow>
   foldl (\<lambda>db p. updateById (post_id p) (g p) db) (q # db) ps
     = q # foldl (\<lambda>db p. updateById (post_id p) (g p) db) db ps"
  by (induction ps arbitrary: db) simp_all

lemma foldl_updateById_filter:
  assumes "distinct (map post_id db)" and "\<And>p q. post_id (g p q) = post_id q"
  shows "foldl (\<lambda>db p. updateById (post_id p) (g p) db) db (filter P db)
           = map (\<lambda>p. if P p then g p p else p) db"
  using assms(1)
proof (induction db)
  case Nil
  show ?case by simp
next
  case (Cons q db)
  then have d: "distinct (map post_id db)" and nq: "\<forall>p \<in> set (filter P db). post_id p \<noteq> post_id q"
    by (auto simp: image_iff)
  have nq': "\<forall>p \<in> set (filter P db). post_id p \<noteq> post_id (g q q)"
    using nq by (simp add: assms(2))
  show ?case
  proof (cases "P q")
    case True
    then show ?thesis
      using foldl_updateById_skip [OF nq', of g db] Cons.IH [OF d] by simp
  next
    case False
    then show ?thesis
      using foldl_updateById_skip [OF nq, of g db] Cons.IH [OF d] by simp
  qed
qed












section \<open>Properties of the cache\<close>


lemma cache_get_after_null:
  "fst (cache_get t key (cache_set t1 key None ttl c)) = None"
  by (auto simp add: cache_get_def cache_set_def redis_get_def redis_setex_def Let_def
      split: option.splits)

lemma cache_get_hit_state:
  "fst (cache_get t key c) = Some v \<Longrightarrow> snd (cache_get t key c) = c"
  by (auto simp add: cache_get_def Let_def split: option.splits if_splits)

lemma cached_miss:
  assumes "fst (cache_get tg key c) = None"
  shows "cached tg ts key fn ttl (c, w)
           = (fst (fn w), cache_set ts key (fst (fn w)) ttl (snd (cache_get tg key c)), snd (fn w))"
  using assms by (cases "cache_get tg key c"; cases "fn w") (simp add: cached_def)


lemma counting_fst: "fst (counting fn (n, w)) = fst (fn w)"
  by (cases "fn w") (simp add: counting_def)

lemma counting_snd: "snd (counting fn (n, w)) = (Suc n, snd (fn w))"
  by (cases "fn w") (simp add: counting_def)




text \<open>
  When Redis stops answering between two calls, the second call reads the in-memory
  maps, which do not hold the value, and computeFn is invoked again within the window.
\<close>

lemma cached_backend_change:
  "(case cached 1000 1000 ''k'' (counting nonNullFn) 300
           (emptyCache\<lparr>isRedisConnected := True\<rparr>, (0, ())) of
      (r, c1, nw) \<Rightarrow>
        snd (snd (cached 2000 2000 ''k'' (counting nonNullFn) 300 (c1\<lparr>redisDown := True\<rparr>, nw))))
   = (2, ())"
  by (simp add: cached_def cache_get_def cache_set_def redis_get_def redis_setex_def
      emptyCache_def counting_def nonNullFn_def Let_def)

lemma cachedRun_null:
  assumes "\<forall>w. fst (fn w) = None" and "\<forall>t. fst (cache_get t key c) = None"
  shows "fst (cachedRun ts key (counting fn) ttl (c, (n, w))) = replicate (length ts) None
         \<and> fst (snd (snd (cachedRun ts key (counting fn) ttl (c, (n, w))))) = n + length ts"
  using assms(2)
proof (induction ts arbitrary: c n w)
  case Nil
  then show ?case by simp
next
  case (Cons a ts)
  obtain tg tset where a: "a = (tg, tset)" by (cases a)
  have m: "fst (cache_get tg key c) = None" using Cons.prems by simp
  let ?c1 = "cache_set tset key None ttl (snd (cache_get tg key c))"
  have step: "cached tg tset key (counting fn) ttl (c, (n, w)) = (None, ?c1, (Suc n, snd (fn w)))"
    using cached_miss [OF m, of tset "counting fn" ttl "(n, w)"] assms(1)
    by (simp add: counting_fst counting_snd)
  have inv: "\<forall>t. fst (cache_get t key ?c1) = None" by (simp add: cache_get_after_null)
  obtain rs c' nw' where r:
    "cachedRun ts key (counting fn) ttl (?c1, (Suc n, snd (fn w))) = (rs, c', nw')"
    by (cases "cachedRun ts key (counting fn) ttl (?c1, (Suc n, snd (fn w)))")
  show ?case
    using Cons.IH [OF inv, of "Suc n" "snd (fn w)"] by (simp add: a step r)
qed

text \<open>
  C10: when computeFn returns null, cached (key, computeFn, ttl) returns null but never
  establishes a cache hit: a stored null is indistinguishable from a miss, so, starting
  from a miss, every call in any succession of calls with the same key, at any clock
  readings, returns null and invokes computeFn again.
\<close>

theorem cached_null_never_hits:
  assumes null: "\<forall>w. fst (fn w) = None" and miss: "fst (cache_get t0 key c) = None"
  shows "fst (cachedRun ((t0, t1) # ts) key (counting fn) ttl (c, (n, w)))
            = replicate (Suc (length ts)) None
         \<and> fst (snd (snd (cachedRun ((t0, t1) # ts) key (counting fn) ttl (c, (n, w)))))
            = n + Suc (length ts)"
proof -
  let ?c1 = "cache_set t1 key None ttl (snd (cache_get t0 key c))"
  have step: "cached t0 t1 key (counting fn) ttl (c, (n, w)) = (None, ?c1, (Suc n, snd (fn w)))"
    using cached_miss [OF miss, of t1 "counting fn" ttl "(n, w)"] null
    by (simp add: counting_fst counting_snd)
  have inv: "\<forall>t. fst (cache_get t key ?c1) = None" by (simp add: cache_get_after_null)
  obtain rs c' nw' where r:
    "cachedRun ts key (counting fn) ttl (?c1, (Suc n, snd (fn w))) = (rs, c', nw')"
    by (cases "cachedRun ts key (counting fn) ttl (?c1, (Suc n, snd (fn w)))")
  show ?thesis
    using cachedRun_null [OF null inv, of ts ttl "Suc n" "snd (fn w)"]
    by (simp add: step r)
qed

text \<open>
  The theorem on the empty cache: three calls within the TTL window, three invocations.
\<close>

theorem cached_null_never_hits_witness:
  "(\<forall>w. fst (nullFn w) = None) \<and> fst (cache_get 1000 ''k'' (emptyCache :: (string, nat) cache_state)) = None
   \<and> fst (snd (snd (cachedRun [(1000, 1000), (2000, 2000), (3000, 3000)] ''k'' (counting nullFn) 300
       (emptyCache, (0, ()))))) = 3"
proof -
  have h1: "\<forall>w. fst (nullFn w) = None" by (simp add: nullFn_def)
  have h2: "fst (cache_get 1000 ''k'' (emptyCache :: (string, nat) cache_state)) = None"
    by (simp add: cache_get_def emptyCache_def Let_def)
  from cached_null_never_hits [OF h1 h2, of 1000 "[(2000, 2000), (3000, 3000)]" 300 0 "()"] h1 h2
  show ?thesis by simp
qed

section \<open>Properties of the feed service\<close>

lemmas explore_defs = getExplorePosts_def cache_get_def cache_set_def redis_get_def redis_setex_def
  emptyCache_def exploreWorld_def emptyWorld_def blockingRequest_def blockingUser_def
  blockedAuthorPost_def blockedAuthor_def schemaDefaults_def parseIntOr_def Post_find_def
  exploreQuery_def mongo_limit_def TTL_EXPLORE_FEED_def hydrate_def orDefault_def
  authorMissing_def Let_def

text \<open>
  C4 fails on the cache-miss path. A user who blocks author 7 asks for page 1 of the
  explore feed while the cache is empty: the answer holds the post of author 7. The same
  request one second later is served from the cache and holds no post, because only the
  cache-hit branch filters.
\<close>

theorem getExplorePosts_miss_returns_blocked:
  "user blockedAuthorPost \<in> set (blockedUsers (req_user blockingRequest))
   \<and> fst (getExplorePosts 1000 blockingRequest (emptyCache, exploreWorld))
       = Inr \<lparr>posts = [blockedAuthorPost], hasMore = None, page = 1, limit = 20\<rparr>
   \<and> fst (getExplorePosts 2000 blockingRequest
            (snd (getExplorePosts 1000 blockingRequest (emptyCache, exploreWorld))))
       = Inr \<lparr>posts = [], hasMore = None, page = 1, limit = 20\<rparr>"
  by (simp add: explore_defs)

text \<open>
  What the two branches do in general: a hit answers the cached page without the posts
  of blocked authors and touches neither the cache nor the store (it answers 500 when
  the author of a cached post is missing); a miss answers the page of the query as it
  is, and stores that same page.
\<close>

lemma getExplorePosts_hit:
  assumes "fst (cache_get now (ExploreFeedKey (parseIntOr (query_page req) 1)) c) = Some hit"
    and "\<not> list_ex (authorMissing w) (posts hit)"
  shows "fst (getExplorePosts now req (c, w))
           = Inr (hit\<lparr>posts := filter (\<lambda>p. user p \<notin> set (blockedUsers (req_user req))) (posts hit)\<rparr>)
         \<and> snd (getExplorePosts now req (c, w)) = (c, w)"
  using assms cache_get_hit_state [OF assms(1)]
  by (cases "cache_get now (ExploreFeedKey (parseIntOr (query_page req) 1)) c")
     (simp add: getExplorePosts_def Let_def)

lemma getExplorePosts_hit_author_missing:
  assumes "fst (cache_get now (ExploreFeedKey (parseIntOr (query_page req) 1)) c) = Some hit"
    and "list_ex (authorMissing w) (posts hit)"
  shows "fst (getExplorePosts now req (c, w)) = Inl (Status500 ''Server error'')"
  using assms
  by (cases "cache_get now (ExploreFeedKey (parseIntOr (query_page req) 1)) c")
     (simp add: getExplorePosts_def Let_def)

lemma getExplorePosts_miss:
  assumes "fst (cache_get now (ExploreFeedKey (parseIntOr (query_page req) 1)) c) = None"
    and "0 \<le> (parseIntOr (query_page req) 1 - 1) * parseIntOr (query_limit req) 20"
    and "pg = \<lparr>posts = map hydrate (mongo_limit (parseIntOr (query_limit req) 20)
                 (drop (nat ((parseIntOr (query_page req) 1 - 1) * parseIntOr (query_limit req) 20))
                    (sortBy byScore (filter exploreQuery (postsColl w))))),
               hasMore = None, page = parseIntOr (query_page req) 1,
               limit = parseIntOr (query_limit req) 20\<rparr>"
  shows "getExplorePosts now req (c, w)
           = (Inr pg,
              cache_set now (ExploreFeedKey (parseIntOr (query_page req) 1)) (Some pg) TTL_EXPLORE_FEED
                (snd (cache_get now (ExploreFeedKey (parseIntOr (query_page req) 1)) c)),
              w\<lparr>storeLog := storeLog w @ [PostFind]\<rparr>)"
  using assms
  by (cases "cache_get now (ExploreFeedKey (parseIntOr (query_page req) 1)) c")
     (simp add: getExplorePosts_def Let_def Post_find_def)

text \<open>
  C7: for every user whose following set is empty, the following-feed operation, on a
  cache miss, returns {posts: [], hasMore: false} (with the page and the limit of the
  request); the only command sent to the store is the lookup of the user, so the posts
  are not queried, and nothing is written to the cache.
\<close>

theorem getFollowingFeed_follows_nobody:
  assumes miss: "fst (cache_get now (FollowingFeedKey (user_id (req_user req))
                        (parseIntOr (query_page req) 1)) c) = None"
    and usr: "find (\<lambda>u. user_id u = user_id (req_user req)) (usersColl w) = Some u"
    and nobody: "following u = []"
  shows "getFollowingFeed now req (c, w)
           = (Inr \<lparr>posts = [], hasMore = Some False, page = parseIntOr (query_page req) 1,
                    limit = parseIntOr (query_limit req) 10\<rparr>,
              snd (cache_get now (FollowingFeedKey (user_id (req_user req))
                        (parseIntOr (query_page req) 1)) c),
              w\<lparr>storeLog := storeLog w @ [UserFindById]\<rparr>)"
  using assms
  by (cases "cache_get now (FollowingFeedKey (user_id (req_user req)) (parseIntOr (query_page req) 1)) c")
     (simp add: getFollowingFeed_def Let_def User_findById_def)

text \<open>
  The theorem for a user who follows nobody, on the empty cache.
\<close>

theorem getFollowingFeed_follows_nobody_witness:
  "fst (cache_get 1000 (FollowingFeedKey (user_id (req_user blockingRequest))
          (parseIntOr (query_page blockingRequest) 1)) (emptyCache :: (cache_key, feed_page) cache_state)) = None
   \<and> find (\<lambda>u. user_id u = user_id (req_user blockingRequest)) (usersColl exploreWorld) = Some blockingUser
   \<and> following blockingUser = []
   \<and> fst (getFollowingFeed 1000 blockingRequest (emptyCache, exploreWorld))
       = Inr \<lparr>posts = [], hasMore = Some False, page = 1, limit = 20\<rparr>
   \<and> storeLog (snd (snd (getFollowingFeed 1000 blockingRequest (emptyCache, exploreWorld))))
       = [UserFindById]"
proof -
  have h1: "fst (cache_get 1000 (FollowingFeedKey (user_id (req_user blockingRequest))
          (parseIntOr (query_page blockingRequest) 1)) (emptyCache :: (cache_key, feed_page) cache_state)) = None"
    by (simp add: cache_get_def emptyCache_def Let_def)
  have h2: "find (\<lambda>u. user_id u = user_id (req_user blockingRequest)) (usersColl exploreWorld)
              = Some blockingUser"
    by (simp add: exploreWorld_def emptyWorld_def blockingRequest_def blockingUser_def)
  have h3: "following blockingUser = []" by (simp add: blockingUser_def)
  have pg: "parseIntOr (query_page blockingRequest) 1 = 1"
    and lm: "parseIntOr (query_limit blockingRequest) 10 = 20"
    by (simp_all add: parseIntOr_def blockingRequest_def)
  have lg: "storeLog exploreWorld = []" by (simp add: exploreWorld_def emptyWorld_def)
  from getFollowingFeed_follows_nobody [OF h1 h2 h3] h1 h2 h3
  show ?thesis by (simp add: pg lm lg)
qed

subsection \<open>Likes\<close>









lemmas save_defs = savedDoc_def writeDefaults_def preSave_def hydrate_def








subsection \<open>Post creation\<close>




section \<open>Properties of the scheduled-post publisher\<close>

lemmas sched_defs = publisherTick_def duePost_def insertMany_def followerNotification_def
  schemaValid_def savedDoc_def writeDefaults_def writeDefault_def preSave_def verticalVideo_def
  schedWorld_def emptyWorld_def dueA_def dueB_def authorA_def authorB_def schemaDefaults_def
  Let_def

text \<open>
  C3 fails on the code. Two posts are due, the first by an author with the followers
  8, 9 and 10, the second by an author with the follower 11, and the store refuses the
  notification for user 9. The tick publishes the first post and inserts the
  notifications for 8 and 10; the exception of \<open>insertMany\<close> then leaves the loop, and
  the second post stays scheduled, with no notification for its follower.
\<close>

theorem publisherTick_failure_blocks_rest:
  "filter (duePost 60000) (postsColl schedWorld) = [dueA, dueB]
   \<and> fst (publisherTick refuses9 60000 schedWorld) = True
   \<and> map status (postsColl (snd (publisherTick refuses9 60000 schedWorld))) = [Ready, Scheduled]
   \<and> map n_userId (notificationsColl (snd (publisherTick refuses9 60000 schedWorld))) = [8, 10]"
  by (simp add: sched_defs refuses9_def)

text \<open>
  When the store refuses nothing, the same tick publishes both posts and inserts one
  notification per follower.
\<close>

lemma publisherTick_no_failure:
  "publisherTick (\<lambda>d. False) 60000 schedWorld
     = (False, schedWorld\<lparr>postsColl := [dueA\<lparr>status := Ready\<rparr>, dueB\<lparr>status := Ready\<rparr>],
          notificationsColl := map (followerNotification authorA dueA) [8, 9, 10]
                               @ map (followerNotification authorB dueB) [11]\<rparr>)"
  by (simp add: sched_defs)

text \<open>
  In general, a tick during which the store refuses no notification (on a collection
  with distinct ids whose authors all exist and whose documents are valid) saves every
  due post as ready, leaves the
  other posts as they are, and inserts exactly one notification per follower of the
  author of each due post.
\<close>

lemma publishLoop_accepting:
  assumes "\<forall>p \<in> set ps. find (\<lambda>u. user_id u = user p) (usersColl w) \<noteq> None \<and> schemaValid p"
  shows "publishLoop (\<lambda>d. False) ps w
           = (False, w\<lparr>postsColl :=
                          foldl (\<lambda>db p. updateById (post_id p) (savedDoc p (\<lambda>q. q\<lparr>status := Ready\<rparr>)) db)
                            (postsColl w) ps,
                        notificationsColl := notificationsColl w @ concat (map (fanOut (usersColl w)) ps)\<rparr>)"
  using assms
proof (induction ps arbitrary: w)
  case Nil
  show ?case by simp
next
  case (Cons p ps)
  from Cons.prems obtain author where a: "find (\<lambda>u. user_id u = user p) (usersColl w) = Some author"
    by auto
  have v: "schemaValid (p\<lparr>status := Ready\<rparr>)"
    using Cons.prems by (simp add: schemaValid_def)
  let ?w1 = "w\<lparr>postsColl := updateById (post_id p) (savedDoc p (\<lambda>q. q\<lparr>status := Ready\<rparr>))
                             (postsColl w)\<rparr>"
  let ?w2 = "?w1\<lparr>notificationsColl := notificationsColl w @ fanOut (usersColl w) p\<rparr>"
  have u1: "\<forall>p \<in> set ps. find (\<lambda>u. user_id u = user p) (usersColl ?w1) \<noteq> None \<and> schemaValid p"
    and u2: "\<forall>p \<in> set ps. find (\<lambda>u. user_id u = user p) (usersColl ?w2) \<noteq> None \<and> schemaValid p"
    using Cons.prems by simp_all
  show ?case
  proof (cases "followers author = []")
    case True
    then have f: "fanOut (usersColl w) p = []" by (simp add: fanOut_def a)
    show ?thesis
      using Cons.IH [OF u1] True by (simp add: a f v)
  next
    case False
    have f: "fanOut (usersColl w) p = map (followerNotification author p) (followers author)"
      by (simp add: fanOut_def a)
    show ?thesis
      using Cons.IH [OF u2] False by (simp add: a f v insertMany_def list_ex_iff)
  qed
qed

lemma publisherTick_accepting:
  assumes dist: "distinct (map post_id (postsColl w))"
    and authors: "\<forall>p \<in> set (postsColl w).
                    find (\<lambda>u. user_id u = user p) (usersColl w) \<noteq> None \<and> schemaValid p"
  shows "publisherTick (\<lambda>d. False) now w
           = (False, w\<lparr>postsColl :=
                          map (\<lambda>p. if duePost now p then savedDoc p (\<lambda>q. q\<lparr>status := Ready\<rparr>) p else p)
                            (postsColl w),
                        notificationsColl := notificationsColl w
                           @ concat (map (fanOut (usersColl w)) (filter (duePost now) (postsColl w)))\<rparr>)"
proof -
  let ?due = "filter (duePost now) (postsColl w)"
  have a: "\<forall>p \<in> set ?due. find (\<lambda>u. user_id u = user p) (usersColl w) \<noteq> None \<and> schemaValid p"
    using authors by simp
  have m: "foldl (\<lambda>db p. updateById (post_id p) (savedDoc p (\<lambda>q. q\<lparr>status := Ready\<rparr>)) db)
             (postsColl w) ?due
             = map (\<lambda>p. if duePost now p then savedDoc p (\<lambda>q. q\<lparr>status := Ready\<rparr>) p else p)
                 (postsColl w)"
    using dist by (rule foldl_updateById_filter) (simp add: save_defs)
  show ?thesis
  proof (cases "?due = []")
    case True
    then have "\<forall>p \<in> set (postsColl w). \<not> duePost now p" by (simp add: filter_empty_conv)
    then have "map (\<lambda>p. if duePost now p then savedDoc p (\<lambda>q. q\<lparr>status := Ready\<rparr>) p else p)
                 (postsColl w) = postsColl w"
      by (simp add: map_idI)
    with True show ?thesis by (simp add: publisherTick_def Let_def)
  next
    case False
    then show ?thesis
      using publishLoop_accepting [OF a] by (simp add: publisherTick_def Let_def m)
  qed
qed

end
